theory Spec2Isabelle
  imports Main
begin

section \<open>Python values, exceptions and HTTP responses\<close>

text \<open>
  The two handlers of \<^verbatim>\<open>backend/app.py\<close> are embedded as functions of the request
  and of the outcome of every call into a collaborator (Flask's request parsing, the web3
  contract, the sqlite3 connection, the standard output \<^verbatim>\<open>print\<close> writes to). A
  raised exception is a value: only its \<^verbatim>\<open>str(e)\<close> is ever read by the handlers, so
  an exception carries that text.
\<close>

datatype exn = Raised string

fun str :: "exn \<Rightarrow> string" where
  "str (Raised msg) = msg"

text \<open>
  A Python float is finite (sign, mantissa, exponent), infinite or not a number; the
  handlers only test it for truth, and it is false exactly when it is zero.
\<close>

datatype pyfloat = Finite bool nat int | Infinite bool | NaN

text \<open>
  The values \<^verbatim>\<open>request.get_json()\<close> can return and \<^verbatim>\<open>jsonify\<close> can take. A dict is
  the list of its items in insertion order (the keys of a parsed dict are distinct; a lookup
  takes the first item of a key).
\<close>

datatype pyval =
    PyNone
  | PyBool bool
  | PyInt int
  | PyFloat pyfloat
  | PyStr string
  | PyList "pyval list"
  | PyDict "(string \<times> pyval) list"

text \<open>Python's truth value of an object, as \<^verbatim>\<open>if not eth_address\<close> tests it.\<close>

fun truthy :: "pyval \<Rightarrow> bool" where
  "truthy PyNone = False"
| "truthy (PyBool b) = b"
| "truthy (PyInt n) = (n \<noteq> 0)"
| "truthy (PyFloat (Finite s m e)) = (m \<noteq> 0)"
| "truthy (PyFloat (Infinite s)) = True"
| "truthy (PyFloat NaN) = True"
| "truthy (PyStr s) = (s \<noteq> [])"
| "truthy (PyList xs) = (xs \<noteq> [])"
| "truthy (PyDict kvs) = (kvs \<noteq> [])"

fun type_name :: "pyval \<Rightarrow> string" where
  "type_name PyNone = ''NoneType''"
| "type_name (PyBool b) = ''bool''"
| "type_name (PyInt n) = ''int''"
| "type_name (PyFloat x) = ''float''"
| "type_name (PyStr s) = ''str''"
| "type_name (PyList xs) = ''list''"
| "type_name (PyDict kvs) = ''dict''"

definition apostrophe :: char where
  "apostrophe = CHR 0x27"

text \<open>The AttributeError Python raises for \<^verbatim>\<open>v.attr\<close> on an object without that attribute.\<close>

definition attribute_error :: "pyval \<Rightarrow> string \<Rightarrow> exn" where
  "attribute_error v attr =
     Raised ([apostrophe] @ type_name v @ [apostrophe] @ '' object has no attribute '' @
             [apostrophe] @ attr @ [apostrophe])"

text \<open>
  \<^verbatim>\<open>data.get(key)\<close>: on a dict the value of the key, or None when the key is absent; on
  any other object (None, a list, a string, a number) the attribute lookup raises.
\<close>

fun py_get :: "pyval \<Rightarrow> string \<Rightarrow> exn + pyval" where
  "py_get (PyDict kvs) key = Inr (case map_of kvs key of None \<Rightarrow> PyNone | Some v \<Rightarrow> v)"
| "py_get v key = Inl (attribute_error v ''get'')"

text \<open>
  A Flask response: \<^verbatim>\<open>jsonify(d)\<close> is a response of status 200 whose body is \<open>d\<close>,
  and returning the pair \<^verbatim>\<open>(response, code)\<close> from a view sets the status.
\<close>

record response =
  status_code :: nat
  body :: pyval

definition jsonify :: "pyval \<Rightarrow> response" where
  "jsonify d = \<lparr>status_code = 200, body = d\<rparr>"

definition with_status :: "response \<Rightarrow> nat \<Rightarrow> response" where
  "with_status r code = r\<lparr>status_code := code\<rparr>"

section \<open>verify\_subscription\<close>

text \<open>
  The request, as the handler reads it: the outcome of \<^verbatim>\<open>request.get_json()\<close>, which
  returns the parsed body or raises (a body that does not parse; in recent Flask also a
  request whose content type is not JSON, where older versions return None).
\<close>

record request =
  get_json :: "exn + pyval"

text \<open>
  The chain, as the handler reads it: \<open>eth_contract\<close> is the outcome of
  \<^verbatim>\<open>w3.eth.contract(address=CONTRACT_ADDRESS, abi=SUBSCRIPTION_ABI)\<close> (None when the
  contract object is built), and \<open>hasActiveSubscription a\<close> the outcome of
  \<^verbatim>\<open>contract.functions.hasActiveSubscription(a).call()\<close>: the boolean of the ABI, or the
  exception raised (the provider is unreachable, the call reverts, \<open>a\<close> is not an
  address).
\<close>

record web3 =
  eth_contract :: "exn option"
  hasActiveSubscription :: "pyval \<Rightarrow> exn + bool"

text \<open>
  The body of the \<^verbatim>\<open>try\<close> block. The second component lists the arguments with which
  \<^verbatim>\<open>hasActiveSubscription\<close> was called, in order.
\<close>

definition verify_subscription_try :: "web3 \<Rightarrow> request \<Rightarrow> (exn + response) \<times> pyval list" where
  "verify_subscription_try w3 request =
     (case get_json request of
        Inl e \<Rightarrow> (Inl e, [])
      | Inr data \<Rightarrow>
          (case py_get data ''eth_address'' of
             Inl e \<Rightarrow> (Inl e, [])
           | Inr eth_address \<Rightarrow>
               if \<not> truthy eth_address then
                 (Inr (with_status
                    (jsonify (PyDict [(''error'', PyStr ''eth_address is required'')])) 400), [])
               else
                 (case eth_contract w3 of
                    Some e \<Rightarrow> (Inl e, [])
                  | None \<Rightarrow>
                      (case hasActiveSubscription w3 eth_address of
                         Inl e \<Rightarrow> (Inl e, [eth_address])
                       | Inr is_subscribed \<Rightarrow>
                           if is_subscribed then
                             (Inr (with_status
                                (jsonify (PyDict [(''status'', PyStr ''active'')])) 200),
                              [eth_address])
                           else
                             (Inr (with_status
                                (jsonify (PyDict [(''error'', PyStr ''No active subscription'')]))
                                401),
                              [eth_address])))))"

text \<open>The handler: the \<^verbatim>\<open>try\<close> block under \<^verbatim>\<open>except Exception as e\<close>.\<close>

definition verify_subscription :: "web3 \<Rightarrow> request \<Rightarrow> response \<times> pyval list" where
  "verify_subscription w3 request =
     (case verify_subscription_try w3 request of
        (Inr r, calls) \<Rightarrow> (r, calls)
      | (Inl e, calls) \<Rightarrow>
          (with_status (jsonify (PyDict [(''error'', PyStr (str e))])) 500, calls))"

section \<open>get\_node\_details\<close>

text \<open>
  A row of the table \<^verbatim>\<open>pending_nodes\<close>, with the four columns the query reads, each
  holding text. SQLite keeps text as bytes, and so does \<open>string\<close>.
\<close>

record node_record =
  address :: string
  friendly_name :: string
  country :: string
  status :: string

text \<open>
  SQLite's built-in \<^verbatim>\<open>LOWER\<close> folds the letters A to Z and leaves every other byte as
  it is.
\<close>

definition is_upper :: "char \<Rightarrow> bool" where
  "is_upper c \<longleftrightarrow> 65 \<le> (of_char c :: nat) \<and> (of_char c :: nat) \<le> 90"

definition sqlite3Tolower :: "char \<Rightarrow> char" where
  "sqlite3Tolower c = (if is_upper c then char_of (of_char c + 32 :: nat) else c)"

definition LOWER :: "string \<Rightarrow> string" where
  "LOWER s = map sqlite3Tolower s"

text \<open>
  The query of the handler:
  \<^verbatim>\<open>SELECT friendly_name, country FROM pending_nodes
   WHERE LOWER(address) = LOWER(?) AND status = 'approved'\<close>
  with the request's address bound to the parameter. The comparison of \<open>status\<close> is
  SQLite's default (binary) text comparison.
\<close>

definition where_clause :: "string \<Rightarrow> node_record \<Rightarrow> bool" where
  "where_clause param r \<longleftrightarrow> LOWER (address r) = LOWER param \<and> status r = ''approved''"

definition select_nodes :: "node_record list \<Rightarrow> string \<Rightarrow> (string \<times> string) list" where
  "select_nodes table param =
     map (\<lambda>r. (friendly_name r, country r)) (filter (where_clause param) table)"

text \<open>\<^verbatim>\<open>cursor.fetchone()\<close>: the first row of the result, or None when it has no row.\<close>

fun first_row :: "'a list \<Rightarrow> 'a option" where
  "first_row [] = None"
| "first_row (x # xs) = Some x"

text \<open>
  What the handler's calls meet during one request: for each sqlite3 call the exception it
  raises (None when it returns); the rows of \<^verbatim>\<open>pending_nodes\<close> in the order the query
  visits them; and for each line the handler prints the exception \<^verbatim>\<open>print\<close> raises
  on the server's standard output (None when the line is written). A database file without
  the table is one whose \<open>execute\<close> raises; a standard output that is closed, or whose
  encoding lacks a character of the line, is one whose \<open>print\<close> raises.
\<close>

datatype log_line =
    Getting_details string
  | Database_result "(string \<times> string) option"
  | Sending_response pyval
  | No_data_found string
  | Error_fetching string

record environment =
  connect_raises :: "exn option"
  cursor_raises :: "exn option"
  execute_raises :: "exn option"
  fetchone_raises :: "exn option"
  close_raises :: "exn option"
  pending_nodes :: "node_record list"
  print_raises :: "log_line \<Rightarrow> exn option"

text \<open>The sqlite3 calls a request makes, in order; the last one may be the one that raised.\<close>

datatype db_call = Connect | Cursor | Execute string | Fetchone | Close

definition placeholder :: pyval where
  "placeholder =
     PyDict [(''friendly_name'', PyStr ''Hold on there''), (''country'', PyStr ''Hold on there'')]"

text \<open>
  The body of the \<^verbatim>\<open>try\<close> block, statement by statement: the print of line 50, the
  connect, the cursor, the query, \<^verbatim>\<open>fetchone\<close>, the print of line 62, the close, and on
  either branch of \<^verbatim>\<open>if result\<close> the print of line 70 or 73 before the response is
  returned. A row of the query has two columns, so a row that was fetched is true.
\<close>

definition get_node_details_try ::
    "environment \<Rightarrow> string \<Rightarrow> (exn + response) \<times> db_call list" where
  "get_node_details_try db addr =
     (case print_raises db (Getting_details addr) of
        Some e \<Rightarrow> (Inl e, [])
      | None \<Rightarrow>
     (case connect_raises db of
        Some e \<Rightarrow> (Inl e, [Connect])
      | None \<Rightarrow>
     (case cursor_raises db of
        Some e \<Rightarrow> (Inl e, [Connect, Cursor])
      | None \<Rightarrow>
     (case execute_raises db of
        Some e \<Rightarrow> (Inl e, [Connect, Cursor, Execute addr])
      | None \<Rightarrow>
     (case fetchone_raises db of
        Some e \<Rightarrow> (Inl e, [Connect, Cursor, Execute addr, Fetchone])
      | None \<Rightarrow>
     (let result = first_row (select_nodes (pending_nodes db) addr) in
      case print_raises db (Database_result result) of
        Some e \<Rightarrow> (Inl e, [Connect, Cursor, Execute addr, Fetchone])
      | None \<Rightarrow>
     (case close_raises db of
        Some e \<Rightarrow> (Inl e, [Connect, Cursor, Execute addr, Fetchone, Close])
      | None \<Rightarrow>
          (case result of
             Some row \<Rightarrow>
               (let response = PyDict [(''friendly_name'', PyStr (fst row)),
                                       (''country'', PyStr (snd row))] in
                case print_raises db (Sending_response response) of
                  Some e \<Rightarrow> (Inl e, [Connect, Cursor, Execute addr, Fetchone, Close])
                | None \<Rightarrow>
                    (Inr (jsonify response), [Connect, Cursor, Execute addr, Fetchone, Close]))
           | None \<Rightarrow>
               (case print_raises db (No_data_found addr) of
                  Some e \<Rightarrow> (Inl e, [Connect, Cursor, Execute addr, Fetchone, Close])
                | None \<Rightarrow>
                    (Inr (jsonify placeholder),
                     [Connect, Cursor, Execute addr, Fetchone, Close]))))))))))"

text \<open>
  The view function: an exception of the block is caught, its text is printed (line 80) and
  the placeholder is returned. That print is under no \<^verbatim>\<open>try\<close>: when it raises, the
  exception leaves the view.
\<close>

definition get_node_details ::
    "environment \<Rightarrow> string \<Rightarrow> (exn + response) \<times> db_call list" where
  "get_node_details db addr =
     (case get_node_details_try db addr of
        (Inr r, calls) \<Rightarrow> (Inr r, calls)
      | (Inl e, calls) \<Rightarrow>
          (case print_raises db (Error_fetching (str e)) of
             Some e' \<Rightarrow> (Inl e', calls)
           | None \<Rightarrow> (Inr (jsonify placeholder), calls)))"

text \<open>
  The status the client receives: that of the response the view returns, and 500 (Flask's
  Internal Server Error) when an exception leaves the view.
\<close>

definition http_status :: "exn + response \<Rightarrow> nat" where
  "http_status outcome = (case outcome of Inr r \<Rightarrow> status_code r | Inl e \<Rightarrow> 500)"

section \<open>Notions of the specification\<close>

text \<open>
  Two strings are equal up to letter casing when they have the same length and, position by
  position, hold the same byte or the upper-case and the lower-case form of one letter
  (the lower-case form of a letter A to Z is 32 code points above it).
\<close>

definition same_letter :: "char \<Rightarrow> char \<Rightarrow> bool" where
  "same_letter c d \<longleftrightarrow>
     c = d \<or> (is_upper c \<and> (of_char d :: nat) = of_char c + 32) \<or>
     (is_upper d \<and> (of_char c :: nat) = of_char d + 32)"

definition eq_up_to_case :: "string \<Rightarrow> string \<Rightarrow> bool" where
  "eq_up_to_case a b \<longleftrightarrow> list_all2 same_letter a b"

text \<open>
  Modelled from the spec: the Address Normalizer of its section 4.1, which the repository
  does not contain. Its output is "a case-folded canonical form": the address with every
  letter in lower case.
\<close>

definition Normalize :: "string \<Rightarrow> string" where
  "Normalize raw = map sqlite3Tolower raw"

text \<open>The store answers: no sqlite3 call of the request raises.\<close>

definition storage_ok :: "environment \<Rightarrow> bool" where
  "storage_ok db \<longleftrightarrow>
     connect_raises db = None \<and> cursor_raises db = None \<and> execute_raises db = None \<and>
     fetchone_raises db = None \<and> close_raises db = None"

text \<open>The standard output takes every line: no print of the request raises.\<close>

definition prints_ok :: "environment \<Rightarrow> bool" where
  "prints_ok db \<longleftrightarrow> (\<forall>line. print_raises db line = None)"

text \<open>The print of the \<^verbatim>\<open>except\<close> branch (line 80) does not raise.\<close>

definition except_print_ok :: "environment \<Rightarrow> bool" where
  "except_print_ok db \<longleftrightarrow> (\<forall>msg. print_raises db (Error_fetching msg) = None)"

text \<open>
  The key assumption of the specification's data model (section 3): among the approved
  records, an address (up to letter casing) names one record.
\<close>

definition approved_key_unique :: "node_record list \<Rightarrow> bool" where
  "approved_key_unique table \<longleftrightarrow>
     (\<forall>r \<in> set table. \<forall>r' \<in> set table.
        status r = ''approved'' \<and> status r' = ''approved'' \<and>
        eq_up_to_case (address r) (address r') \<longrightarrow> r = r')"

section \<open>Example stores, chains and requests\<close>

definition demo_alpha :: node_record where
  "demo_alpha =
     \<lparr>address = ''0xAbC1'', friendly_name = ''Alpha'', country = ''DE'', status = ''approved''\<rparr>"

definition demo_beta :: node_record where
  "demo_beta =
     \<lparr>address = ''0xdef2'', friendly_name = ''Beta'', country = ''FR'', status = ''pending''\<rparr>"

definition demo_gamma :: node_record where
  "demo_gamma =
     \<lparr>address = ''0x9999'', friendly_name = ''Gamma'', country = ''NL'', status = ''Approved''\<rparr>"

text \<open>A standard output that takes every line.\<close>

definition demo_stdout :: "log_line \<Rightarrow> exn option" where
  "demo_stdout line = None"

definition demo_store :: environment where
  "demo_store =
     \<lparr>connect_raises = None, cursor_raises = None, execute_raises = None,
      fetchone_raises = None, close_raises = None,
      pending_nodes = [demo_alpha, demo_beta, demo_gamma], print_raises = demo_stdout\<rparr>"

text \<open>A second approved record for the address of \<open>demo_alpha\<close>, in other casing.\<close>

definition demo_delta :: node_record where
  "demo_delta =
     \<lparr>address = ''0xabc1'', friendly_name = ''Delta'', country = ''SE'', status = ''approved''\<rparr>"

definition demo_store_duplicate :: environment where
  "demo_store_duplicate =
     \<lparr>connect_raises = None, cursor_raises = None, execute_raises = None,
      fetchone_raises = None, close_raises = None,
      pending_nodes = [demo_alpha, demo_delta], print_raises = demo_stdout\<rparr>"

text \<open>A database file that has no table \<^verbatim>\<open>pending_nodes\<close>: the query raises.\<close>

definition demo_store_no_table :: environment where
  "demo_store_no_table =
     \<lparr>connect_raises = None, cursor_raises = None,
      execute_raises = Some (Raised ''no such table: pending_nodes''),
      fetchone_raises = None, close_raises = None, pending_nodes = [],
      print_raises = demo_stdout\<rparr>"

text \<open>A database file that cannot be opened: the connect raises.\<close>

definition demo_store_unreachable :: environment where
  "demo_store_unreachable =
     \<lparr>connect_raises = Some (Raised ''unable to open database file''), cursor_raises = None,
      execute_raises = None, fetchone_raises = None, close_raises = None,
      pending_nodes = [demo_alpha], print_raises = demo_stdout\<rparr>"

text \<open>
  An approved record whose name is not valid UTF-8 (the byte E9 after "Caf"). Reading it,
  sqlite3 raises an OperationalError whose message quotes the text with the replacement
  character U+FFFD (the bytes EF BF BD) in its place.
\<close>

definition demo_epsilon :: node_record where
  "demo_epsilon =
     \<lparr>address = ''0x7777'', friendly_name = ''Caf'' @ [CHR 0xE9], country = ''FR'',
      status = ''approved''\<rparr>"

definition demo_decode_message :: string where
  "demo_decode_message =
     ''Could not decode to UTF-8 column '' @ [apostrophe] @ ''friendly_name'' @ [apostrophe] @
     '' with text '' @ [apostrophe] @ ''Caf'' @ [CHR 0xEF, CHR 0xBF, CHR 0xBD] @ [apostrophe]"

text \<open>
  A standard output whose encoding has no replacement character: printing the line with the
  message above raises a UnicodeEncodeError (its text is abridged here), and every other
  line is written.
\<close>

definition demo_encode_error :: exn where
  "demo_encode_error = Raised ''codec cannot encode character: character maps to <undefined>''"

definition demo_narrow_stdout :: "log_line \<Rightarrow> exn option" where
  "demo_narrow_stdout line =
     (if line = Error_fetching demo_decode_message then Some demo_encode_error else None)"

definition demo_store_undecodable :: environment where
  "demo_store_undecodable =
     \<lparr>connect_raises = None, cursor_raises = None, execute_raises = None,
      fetchone_raises = Some (Raised demo_decode_message), close_raises = None,
      pending_nodes = [demo_epsilon], print_raises = demo_narrow_stdout\<rparr>"

text \<open>
  A chain on which one account is subscribed, one is not, and the call raises for every other
  argument.
\<close>

definition demo_call :: "pyval \<Rightarrow> exn + bool" where
  "demo_call a =
     (if a = PyStr ''0xAbC1'' then Inr True
      else if a = PyStr ''0xdef2'' then Inr False
      else Inl (Raised ''execution reverted''))"

definition demo_chain :: web3 where
  "demo_chain = \<lparr>eth_contract = None, hasActiveSubscription = demo_call\<rparr>"

definition demo_request :: "pyval \<Rightarrow> request" where
  "demo_request eth_address = \<lparr>get_json = Inr (PyDict [(''eth_address'', eth_address)])\<rparr>"

section \<open>Case folding\<close>

lemma of_char_sqlite3Tolower:
  "(of_char (sqlite3Tolower c) :: nat) = (if is_upper c then of_char c + 32 else of_char c)"
  by (simp add: sqlite3Tolower_def is_upper_def)

lemma same_letter_iff: "same_letter c d \<longleftrightarrow> sqlite3Tolower c = sqlite3Tolower d"
proof -
  have "sqlite3Tolower c = sqlite3Tolower d \<longleftrightarrow>
        (of_char (sqlite3Tolower c) :: nat) = of_char (sqlite3Tolower d)"
    by simp
  also have "\<dots> \<longleftrightarrow> same_letter c d"
    unfolding of_char_sqlite3Tolower same_letter_def is_upper_def
    using of_char_eq_iff [of c d, where ?'a = nat] by auto
  finally show ?thesis by simp
qed

lemma eq_up_to_case_iff: "eq_up_to_case a b \<longleftrightarrow> LOWER a = LOWER b"
  unfolding eq_up_to_case_def LOWER_def
  by (induction a arbitrary: b)
     (auto simp: same_letter_iff list_all2_Cons1 map_eq_Cons_conv dest: sym)

lemma where_clause_iff:
  "where_clause param r \<longleftrightarrow> eq_up_to_case (address r) param \<and> status r = ''approved''"
  by (simp add: where_clause_def eq_up_to_case_iff)

lemma where_clause_casing:
  "eq_up_to_case a b \<Longrightarrow> where_clause a r = where_clause b r"
  by (simp add: where_clause_def eq_up_to_case_iff)

section \<open>The query\<close>

lemma select_nodes_none:
  "\<not> (\<exists>r \<in> set table. where_clause param r) \<Longrightarrow> select_nodes table param = []"
  by (simp add: select_nodes_def filter_empty_conv)

lemma select_nodes_skip:
  "\<not> where_clause param r \<Longrightarrow>
     select_nodes (xs @ r # ys) param = select_nodes (xs @ ys) param"
  by (simp add: select_nodes_def)

lemma select_nodes_first:
  assumes "\<forall>r' \<in> set xs. \<not> where_clause param r'" and "where_clause param r"
  shows "first_row (select_nodes (xs @ r # ys) param) = Some (friendly_name r, country r)"
  using assms by (simp add: select_nodes_def)

lemma select_nodes_casing:
  "eq_up_to_case a b \<Longrightarrow> select_nodes table a = select_nodes table b"
  by (simp add: select_nodes_def where_clause_casing [of a b] cong: filter_cong)

section \<open>The outcome of get\_node\_details\<close>

text \<open>When no print raises, the outcome is a response, decided by the store alone.\<close>

lemma get_node_details_quiet:
  "prints_ok db \<Longrightarrow>
   fst (get_node_details db addr) =
     Inr (if storage_ok db then
            (case first_row (select_nodes (pending_nodes db) addr) of
               Some row \<Rightarrow>
                 jsonify (PyDict [(''friendly_name'', PyStr (fst row)),
                                  (''country'', PyStr (snd row))])
             | None \<Rightarrow> jsonify placeholder)
          else jsonify placeholder)"
  by (simp add: get_node_details_def get_node_details_try_def storage_ok_def prints_ok_def
      Let_def split: option.splits)

text \<open>
  When the query has no row and the print of the \<^verbatim>\<open>except\<close> branch does not raise, the
  outcome is the placeholder response, whatever else raises.
\<close>

lemma get_node_details_no_row:
  "first_row (select_nodes (pending_nodes db) addr) = None \<Longrightarrow> except_print_ok db \<Longrightarrow>
   fst (get_node_details db addr) = Inr (jsonify placeholder)"
  by (simp add: get_node_details_def get_node_details_try_def except_print_ok_def
      Let_def split: option.splits)

text \<open>
  When the print of the \<^verbatim>\<open>except\<close> branch does not raise, the view returns a response,
  and its status is 200.
\<close>

lemma get_node_details_status:
  "except_print_ok db \<Longrightarrow> http_status (fst (get_node_details db addr)) = 200"
  by (simp add: get_node_details_def get_node_details_try_def except_print_ok_def
      http_status_def jsonify_def Let_def split: option.splits)

text \<open>
  When a print of the \<^verbatim>\<open>try\<close> block raises, the request is answered from the
  \<^verbatim>\<open>except\<close> branch although no sqlite3 call raised; for the print of line 62, before
  the close.
\<close>

lemma get_node_details_print_raises:
  assumes "storage_ok db" and "print_raises db (Getting_details addr) = None"
    and "print_raises db (Database_result (first_row (select_nodes (pending_nodes db) addr))) =
           Some e"
    and "print_raises db (Error_fetching (str e)) = None"
  shows "get_node_details db addr =
           (Inr (jsonify placeholder), [Connect, Cursor, Execute addr, Fetchone])"
  using assms
  by (simp add: get_node_details_def get_node_details_try_def storage_ok_def Let_def)

text \<open>
  The outcome depends on the table only through the rows of the query.
\<close>

lemma get_node_details_table:
  assumes "select_nodes table addr = select_nodes table' addr"
  shows "get_node_details (db\<lparr>pending_nodes := table\<rparr>) addr =
           get_node_details (db\<lparr>pending_nodes := table'\<rparr>) addr"
proof -
  have "get_node_details_try (db\<lparr>pending_nodes := table\<rparr>) addr =
      get_node_details_try (db\<lparr>pending_nodes := table'\<rparr>) addr"
    by (simp add: get_node_details_try_def assms Let_def cong: option.case_cong)
  then show ?thesis
    by (simp add: get_node_details_def cong: sum.case_cong prod.case_cong)
qed

section \<open>Claims about get\_node\_details\<close>

text \<open>
  Claim C3 does not hold of the code. The record read has a name that is not valid UTF-8, so
  sqlite3 raises inside the \<^verbatim>\<open>try\<close> block; the \<^verbatim>\<open>except\<close> branch prints the
  exception's text, which the standard output cannot encode; that print is under no
  \<^verbatim>\<open>try\<close>, so the UnicodeEncodeError leaves the view and the client receives status 500.
\<close>

theorem get_node_details_answers_500:
  "fetchone_raises demo_store_undecodable = Some (Raised demo_decode_message) \<and>
   print_raises demo_store_undecodable (Error_fetching demo_decode_message) =
     Some demo_encode_error \<and>
   fst (get_node_details demo_store_undecodable ''0x7777'') = Inl demo_encode_error \<and>
   http_status (fst (get_node_details demo_store_undecodable ''0x7777'')) = 500"
  by (simp add: get_node_details_def get_node_details_try_def demo_store_undecodable_def
      demo_narrow_stdout_def http_status_def)



text \<open>
  Claim C7, as amended. When no sqlite3 call and no print raises, and a stored record with
  status 'approved' is the first record, in the order the query visits the table, whose
  address equals the request's address up to letter casing, the response is status 200 with
  that record's friendly\_name and country; and the response does not depend on the casing
  of the address in the request path.
\<close>

theorem get_node_details_first_match:
  assumes "storage_ok db" and "prints_ok db"
    and "pending_nodes db = xs @ r # ys"
    and "\<forall>r' \<in> set xs. \<not> (status r' = ''approved'' \<and> eq_up_to_case (address r') addr)"
    and "status r = ''approved''" and "eq_up_to_case addr (address r)"
  shows "fst (get_node_details db addr) =
           Inr \<lparr>status_code = 200,
                body = PyDict [(''friendly_name'', PyStr (friendly_name r)),
                               (''country'', PyStr (country r))]\<rparr> \<and>
         (\<forall>addr'. eq_up_to_case addr' addr \<longrightarrow>
            fst (get_node_details db addr') = fst (get_node_details db addr))"
proof -
  from assms(5,6) have "where_clause addr r"
    by (simp add: where_clause_def eq_up_to_case_iff)
  moreover from assms(4) have "\<forall>r' \<in> set xs. \<not> where_clause addr r'"
    by (auto simp: where_clause_iff)
  ultimately have
    "first_row (select_nodes (pending_nodes db) addr) = Some (friendly_name r, country r)"
    unfolding assms(3) by (intro select_nodes_first)
  with assms(1) have found: "fst (get_node_details db addr) =
      Inr \<lparr>status_code = 200,
           body = PyDict [(''friendly_name'', PyStr (friendly_name r)),
                          (''country'', PyStr (country r))]\<rparr>"
    by (simp add: get_node_details_quiet [OF assms(2)] jsonify_def)
  have "fst (get_node_details db addr') = fst (get_node_details db addr)"
    if "eq_up_to_case addr' addr" for addr'
    using select_nodes_casing [OF that, of "pending_nodes db"]
    by (simp add: get_node_details_quiet [OF assms(2)])
  with found show ?thesis
    by blast
qed

theorem get_node_details_first_match_witness:
  "storage_ok demo_store \<and> prints_ok demo_store \<and>
   pending_nodes demo_store = [] @ demo_alpha # [demo_beta, demo_gamma] \<and>
   status demo_alpha = ''approved'' \<and>
   eq_up_to_case ''0XABC1'' (address demo_alpha) \<and> eq_up_to_case ''0xabc1'' ''0XABC1'' \<and>
   fst (get_node_details demo_store ''0XABC1'') =
     Inr \<lparr>status_code = 200,
          body = PyDict [(''friendly_name'', PyStr ''Alpha''), (''country'', PyStr ''DE'')]\<rparr> \<and>
   fst (get_node_details demo_store ''0xabc1'') = fst (get_node_details demo_store ''0XABC1'')"
proof -
  have ok: "storage_ok demo_store"
    by (simp add: storage_ok_def demo_store_def)
  have out: "prints_ok demo_store"
    by (simp add: prints_ok_def demo_store_def demo_stdout_def)
  have tbl: "pending_nodes demo_store = [] @ demo_alpha # [demo_beta, demo_gamma]"
    by (simp add: demo_store_def)
  have before: "\<forall>r' \<in> set []. \<not> (status r' = ''approved'' \<and>
      eq_up_to_case (address r') ''0XABC1'')"
    by simp
  have appr: "status demo_alpha = ''approved''"
    by (simp add: demo_alpha_def)
  have eq1: "eq_up_to_case ''0XABC1'' (address demo_alpha)"
    by (simp add: demo_alpha_def eq_up_to_case_def same_letter_def is_upper_def)
  have eq2: "eq_up_to_case ''0xabc1'' ''0XABC1''"
    by (simp add: eq_up_to_case_def same_letter_def is_upper_def)
  note inst = get_node_details_first_match [OF ok out tbl before appr eq1]
  from inst have found: "fst (get_node_details demo_store ''0XABC1'') =
     Inr \<lparr>status_code = 200,
          body = PyDict [(''friendly_name'', PyStr ''Alpha''), (''country'', PyStr ''DE'')]\<rparr>"
    by (simp add: demo_alpha_def)
  from inst eq2 have inv:
    "fst (get_node_details demo_store ''0xabc1'') = fst (get_node_details demo_store ''0XABC1'')"
    by blast
  from ok out tbl appr eq1 eq2 found inv show ?thesis
    by (intro conjI)
qed

text \<open>
  Claim C7, as stated, fails. With two approved records for one address the first row of
  the query is returned, so the second record's request is answered with the first record's
  name and country; and when the connect raises, a stored approved record is answered with
  the placeholder.
\<close>

theorem get_node_details_found_counterexample:
  "storage_ok demo_store_duplicate \<and>
   demo_delta \<in> set (pending_nodes demo_store_duplicate) \<and>
   status demo_delta = ''approved'' \<and>
   eq_up_to_case ''0xabc1'' (address demo_delta) \<and>
   fst (get_node_details demo_store_duplicate ''0xabc1'') =
     Inr \<lparr>status_code = 200,
          body = PyDict [(''friendly_name'', PyStr ''Alpha''), (''country'', PyStr ''DE'')]\<rparr> \<and>
   fst (get_node_details demo_store_duplicate ''0xabc1'') \<noteq>
     Inr \<lparr>status_code = 200,
          body = PyDict [(''friendly_name'', PyStr (friendly_name demo_delta)),
                         (''country'', PyStr (country demo_delta))]\<rparr> \<and>
   demo_alpha \<in> set (pending_nodes demo_store_unreachable) \<and>
   status demo_alpha = ''approved'' \<and>
   eq_up_to_case ''0xAbC1'' (address demo_alpha) \<and>
   fst (get_node_details demo_store_unreachable ''0xAbC1'') \<noteq>
     Inr \<lparr>status_code = 200,
          body = PyDict [(''friendly_name'', PyStr (friendly_name demo_alpha)),
                         (''country'', PyStr (country demo_alpha))]\<rparr>"
proof -
  have out: "prints_ok demo_store_duplicate" "prints_ok demo_store_unreachable"
    by (simp_all add: prints_ok_def demo_store_duplicate_def demo_store_unreachable_def
        demo_stdout_def)
  have dup: "fst (get_node_details demo_store_duplicate ''0xabc1'') =
     Inr \<lparr>status_code = 200,
          body = PyDict [(''friendly_name'', PyStr ''Alpha''), (''country'', PyStr ''DE'')]\<rparr>"
    unfolding get_node_details_quiet [OF out(1)]
    by (simp add: storage_ok_def demo_store_duplicate_def
        select_nodes_def where_clause_iff demo_alpha_def demo_delta_def jsonify_def
        eq_up_to_case_def same_letter_def is_upper_def)
  have unreachable: "fst (get_node_details demo_store_unreachable ''0xAbC1'') =
     Inr (jsonify placeholder)"
    unfolding get_node_details_quiet [OF out(2)]
    by (simp add: storage_ok_def demo_store_unreachable_def)
  show ?thesis
    unfolding dup unreachable
    by (simp add: storage_ok_def demo_store_duplicate_def demo_store_unreachable_def
        demo_alpha_def demo_delta_def jsonify_def placeholder_def
        eq_up_to_case_def same_letter_def is_upper_def)
qed

text \<open>
  Under the key assumption of the data model (one approved record per address, up to
  casing), every approved record is the one returned for its address.
\<close>

lemma get_node_details_unique:
  assumes "storage_ok db" and "prints_ok db"
    and "approved_key_unique (pending_nodes db)"
    and "r \<in> set (pending_nodes db)" and "status r = ''approved''"
    and "eq_up_to_case addr (address r)"
  shows "fst (get_node_details db addr) =
           Inr \<lparr>status_code = 200,
                body = PyDict [(''friendly_name'', PyStr (friendly_name r)),
                               (''country'', PyStr (country r))]\<rparr>"
proof -
  have only: "r' = r" if "r' \<in> set (pending_nodes db)" and "where_clause addr r'" for r'
  proof -
    from that(2) assms(6)
    have "eq_up_to_case (address r) (address r')" and "status r' = ''approved''"
      by (simp_all add: where_clause_def eq_up_to_case_iff)
    with assms(3,4,5) that(1) show ?thesis
      unfolding approved_key_unique_def by blast
  qed
  from assms(5,6) have match: "where_clause addr r"
    by (simp add: where_clause_def eq_up_to_case_iff)
  have "first_row (select_nodes (pending_nodes db) addr) = Some (friendly_name r, country r)"
  proof (cases "filter (where_clause addr) (pending_nodes db)")
    case Nil
    with assms(4) match show ?thesis
      by (simp add: filter_empty_conv)
  next
    case (Cons x rest)
    then have "x \<in> set (filter (where_clause addr) (pending_nodes db))"
      by simp
    then have "x = r"
      using only by simp
    with Cons show ?thesis
      by (simp add: select_nodes_def)
  qed
  with assms(1) show ?thesis
    by (simp add: get_node_details_quiet [OF assms(2)] jsonify_def)
qed

text \<open>A record the query does not select changes nothing, and alone leaves the placeholder.\<close>

lemma get_node_details_skip:
  assumes "\<not> where_clause addr r"
  shows "get_node_details (db\<lparr>pending_nodes := xs @ r # ys\<rparr>) addr =
           get_node_details (db\<lparr>pending_nodes := xs @ ys\<rparr>) addr"
proof -
  from assms have "select_nodes (xs @ r # ys) addr = select_nodes (xs @ ys) addr"
    by (rule select_nodes_skip)
  then show ?thesis
    by (rule get_node_details_table)
qed

lemma get_node_details_no_match:
  assumes "\<not> (\<exists>r \<in> set table. eq_up_to_case (address r) addr \<and> status r = ''approved'')"
    and "except_print_ok db"
  shows "fst (get_node_details (db\<lparr>pending_nodes := table\<rparr>) addr) =
           Inr \<lparr>status_code = 200,
                body = PyDict [(''friendly_name'', PyStr ''Hold on there''),
                               (''country'', PyStr ''Hold on there'')]\<rparr>"
proof -
  from assms(1) have "select_nodes table addr = []"
    by (intro select_nodes_none) (simp add: where_clause_iff)
  then have "first_row (select_nodes (pending_nodes (db\<lparr>pending_nodes := table\<rparr>)) addr) =
      None"
    by simp
  moreover from assms(2) have "except_print_ok (db\<lparr>pending_nodes := table\<rparr>)"
    by (simp add: except_print_ok_def)
  ultimately show ?thesis
    by (simp add: get_node_details_no_row jsonify_def placeholder_def)
qed

text \<open>
  Claim C8. A stored record whose status is anything other than 'approved' is treated as
  absent: the outcome and the sqlite3 calls are those of the table without the record, and
  when no other record is an approved match (and the print of the \<^verbatim>\<open>except\<close> branch
  does not raise) the response is the placeholder pair.
\<close>

theorem get_node_details_unapproved_absent:
  assumes "status r \<noteq> ''approved''"
  shows "get_node_details (db\<lparr>pending_nodes := xs @ r # ys\<rparr>) addr =
           get_node_details (db\<lparr>pending_nodes := xs @ ys\<rparr>) addr \<and>
         (\<not> (\<exists>r' \<in> set (xs @ ys).
                eq_up_to_case (address r') addr \<and> status r' = ''approved'') \<and>
          except_print_ok db \<longrightarrow>
          fst (get_node_details (db\<lparr>pending_nodes := xs @ r # ys\<rparr>) addr) =
            Inr \<lparr>status_code = 200,
                 body = PyDict [(''friendly_name'', PyStr ''Hold on there''),
                                (''country'', PyStr ''Hold on there'')]\<rparr>)"
proof -
  from assms have "\<not> where_clause addr r"
    by (simp add: where_clause_def)
  then have same: "get_node_details (db\<lparr>pending_nodes := xs @ r # ys\<rparr>) addr =
      get_node_details (db\<lparr>pending_nodes := xs @ ys\<rparr>) addr"
    by (rule get_node_details_skip)
  show ?thesis
    unfolding same
    using get_node_details_no_match [where table = "xs @ ys" and addr = addr and db = db]
    by blast
qed

theorem get_node_details_unapproved_absent_witness:
  "status demo_beta \<noteq> ''approved'' \<and>
   \<not> (\<exists>r' \<in> set ([demo_alpha] @ [demo_gamma]).
         eq_up_to_case (address r') ''0xdef2'' \<and> status r' = ''approved'') \<and>
   except_print_ok demo_store \<and>
   get_node_details (demo_store\<lparr>pending_nodes := [demo_alpha] @ demo_beta # [demo_gamma]\<rparr>)
       ''0xdef2'' =
     get_node_details (demo_store\<lparr>pending_nodes := [demo_alpha] @ [demo_gamma]\<rparr>) ''0xdef2'' \<and>
   fst (get_node_details
       (demo_store\<lparr>pending_nodes := [demo_alpha] @ demo_beta # [demo_gamma]\<rparr>) ''0xdef2'') =
     Inr \<lparr>status_code = 200,
          body = PyDict [(''friendly_name'', PyStr ''Hold on there''),
                         (''country'', PyStr ''Hold on there'')]\<rparr>"
proof -
  have pending: "status demo_beta \<noteq> ''approved''"
    by (simp add: demo_beta_def)
  have others: "\<not> (\<exists>r' \<in> set ([demo_alpha] @ [demo_gamma]).
      eq_up_to_case (address r') ''0xdef2'' \<and> status r' = ''approved'')"
    by (simp add: demo_alpha_def demo_gamma_def eq_up_to_case_def same_letter_def is_upper_def)
  have out: "except_print_ok demo_store"
    by (simp add: except_print_ok_def demo_store_def demo_stdout_def)
  note inst = get_node_details_unapproved_absent
    [OF pending, where db = demo_store and xs = "[demo_alpha]" and ys = "[demo_gamma]"
      and addr = "''0xdef2''"]
  from inst have same:
    "get_node_details (demo_store\<lparr>pending_nodes := [demo_alpha] @ demo_beta # [demo_gamma]\<rparr>)
        ''0xdef2'' =
     get_node_details (demo_store\<lparr>pending_nodes := [demo_alpha] @ [demo_gamma]\<rparr>) ''0xdef2''"
    by (rule conjunct1)
  from inst others out have
    "fst (get_node_details
        (demo_store\<lparr>pending_nodes := [demo_alpha] @ demo_beta # [demo_gamma]\<rparr>) ''0xdef2'') =
     Inr \<lparr>status_code = 200,
          body = PyDict [(''friendly_name'', PyStr ''Hold on there''),
                         (''country'', PyStr ''Hold on there'')]\<rparr>"
    by blast
  with pending others out same show ?thesis
    by (intro conjI)
qed

text \<open>
  Claim C9. The query compares the address without regard to letter casing and the status
  exactly: a record is selected when its address equals the request's up to casing and its
  status is the string 'approved'. So a record whose status differs from 'approved' only
  in casing (such as 'Approved') is treated as absent, and alone leaves the placeholder
  (when the print of the \<^verbatim>\<open>except\<close> branch does not raise).
\<close>

theorem get_node_details_status_exact:
  assumes "eq_up_to_case (status r) ''approved''" and "status r \<noteq> ''approved''"
  shows "(where_clause addr r' \<longleftrightarrow>
            eq_up_to_case (address r') addr \<and> status r' = ''approved'') \<and>
         get_node_details (db\<lparr>pending_nodes := xs @ r # ys\<rparr>) addr =
           get_node_details (db\<lparr>pending_nodes := xs @ ys\<rparr>) addr \<and>
         (except_print_ok db \<longrightarrow>
          fst (get_node_details (db\<lparr>pending_nodes := [r]\<rparr>) addr) =
            Inr \<lparr>status_code = 200,
                 body = PyDict [(''friendly_name'', PyStr ''Hold on there''),
                                (''country'', PyStr ''Hold on there'')]\<rparr>)"
proof -
  from assms(2) have skip: "\<not> where_clause addr r"
    by (simp add: where_clause_def)
  from assms(2) have "\<not> (\<exists>r' \<in> set [r].
      eq_up_to_case (address r') addr \<and> status r' = ''approved'')"
    by simp
  then have "except_print_ok db \<longrightarrow>
      fst (get_node_details (db\<lparr>pending_nodes := [r]\<rparr>) addr) =
        Inr \<lparr>status_code = 200,
             body = PyDict [(''friendly_name'', PyStr ''Hold on there''),
                            (''country'', PyStr ''Hold on there'')]\<rparr>"
    using get_node_details_no_match [where table = "[r]" and addr = addr and db = db]
    by blast
  with where_clause_iff [of addr r']
    get_node_details_skip [OF skip, where db = db and xs = xs and ys = ys]
  show ?thesis
    by (intro conjI)
qed

theorem get_node_details_status_exact_witness:
  "eq_up_to_case (status demo_gamma) ''approved'' \<and> status demo_gamma \<noteq> ''approved'' \<and>
   eq_up_to_case (address demo_gamma) ''0x9999'' \<and> except_print_ok demo_store \<and>
   get_node_details (demo_store\<lparr>pending_nodes := [demo_alpha] @ demo_gamma # []\<rparr>) ''0x9999'' =
     get_node_details (demo_store\<lparr>pending_nodes := [demo_alpha] @ []\<rparr>) ''0x9999'' \<and>
   fst (get_node_details (demo_store\<lparr>pending_nodes := [demo_gamma]\<rparr>) ''0x9999'') =
     Inr \<lparr>status_code = 200,
          body = PyDict [(''friendly_name'', PyStr ''Hold on there''),
                         (''country'', PyStr ''Hold on there'')]\<rparr>"
proof -
  have casing: "eq_up_to_case (status demo_gamma) ''approved''"
    by (simp add: demo_gamma_def eq_up_to_case_def same_letter_def is_upper_def)
  have differs: "status demo_gamma \<noteq> ''approved''"
    by (simp add: demo_gamma_def)
  have addr: "eq_up_to_case (address demo_gamma) ''0x9999''"
    by (simp add: demo_gamma_def eq_up_to_case_def same_letter_def)
  have out: "except_print_ok demo_store"
    by (simp add: except_print_ok_def demo_store_def demo_stdout_def)
  note inst = get_node_details_status_exact
    [OF casing differs, where db = demo_store and xs = "[demo_alpha]" and ys = "[]"
      and addr = "''0x9999''" and r' = demo_gamma]
  from inst have same:
    "get_node_details (demo_store\<lparr>pending_nodes := [demo_alpha] @ demo_gamma # []\<rparr>) ''0x9999'' =
     get_node_details (demo_store\<lparr>pending_nodes := [demo_alpha] @ []\<rparr>) ''0x9999''"
    by blast
  from inst out have
    "fst (get_node_details (demo_store\<lparr>pending_nodes := [demo_gamma]\<rparr>) ''0x9999'') =
     Inr \<lparr>status_code = 200,
          body = PyDict [(''friendly_name'', PyStr ''Hold on there''),
                         (''country'', PyStr ''Hold on there'')]\<rparr>"
    by blast
  with casing differs addr out same show ?thesis
    by (intro conjI)
qed

section \<open>The storage connection\<close>

text \<open>
  \<^verbatim>\<open>conn.close()\<close> is called exactly when every statement before it returns: the print
  of line 50, the connect, the cursor, the query, the reading of the result and the print of
  line 62. So the found and the not-found path close the connection.
\<close>

lemma get_node_details_calls:
  "snd (get_node_details db addr) = snd (get_node_details_try db addr)"
  by (simp add: get_node_details_def split: prod.splits sum.splits option.splits)

lemma get_node_details_close_iff:
  "Close \<in> set (snd (get_node_details db addr)) \<longleftrightarrow>
     print_raises db (Getting_details addr) = None \<and>
     connect_raises db = None \<and> cursor_raises db = None \<and> execute_raises db = None \<and>
     fetchone_raises db = None \<and>
     print_raises db (Database_result (first_row (select_nodes (pending_nodes db) addr))) = None"
  unfolding get_node_details_calls get_node_details_try_def Let_def
  apply (cases "print_raises db (Getting_details addr)"; simp)
  apply (cases "connect_raises db"; simp)
  apply (cases "cursor_raises db"; simp)
  apply (cases "execute_raises db"; simp)
  apply (cases "fetchone_raises db"; simp)
  apply (cases "print_raises db
      (Database_result (first_row (select_nodes (pending_nodes db) addr)))"; simp)
  apply (simp split: option.splits)
  done

text \<open>
  Claim C6 does not hold of the code. On a database file without the table
  \<^verbatim>\<open>pending_nodes\<close> the connection is opened, the query raises, and the handler answers
  from its \<^verbatim>\<open>except\<close> branch without ever calling \<^verbatim>\<open>conn.close()\<close>.
\<close>

theorem get_node_details_leaks_connection:
  "connect_raises demo_store_no_table = None \<and>
   snd (get_node_details demo_store_no_table ''0xAbC1'') =
     [Connect, Cursor, Execute ''0xAbC1''] \<and>
   Close \<notin> set (snd (get_node_details demo_store_no_table ''0xAbC1''))"
  by (simp add: get_node_details_def get_node_details_try_def demo_store_no_table_def
      demo_stdout_def)

section \<open>Claims about verify\_subscription\<close>

text \<open>The handler on a body that is a JSON object, by cases as the source has them.\<close>

lemma verify_subscription_dict:
  "get_json request = Inr (PyDict kvs) \<Longrightarrow>
   verify_subscription w3 request =
     (let eth_address = (case map_of kvs ''eth_address'' of None \<Rightarrow> PyNone | Some v \<Rightarrow> v) in
      if \<not> truthy eth_address then
        (\<lparr>status_code = 400, body = PyDict [(''error'', PyStr ''eth_address is required'')]\<rparr>, [])
      else
        (case eth_contract w3 of
           Some e \<Rightarrow> (\<lparr>status_code = 500, body = PyDict [(''error'', PyStr (str e))]\<rparr>, [])
         | None \<Rightarrow>
             (case hasActiveSubscription w3 eth_address of
                Inl e \<Rightarrow>
                  (\<lparr>status_code = 500, body = PyDict [(''error'', PyStr (str e))]\<rparr>,
                   [eth_address])
              | Inr is_subscribed \<Rightarrow>
                  (if is_subscribed
                   then \<lparr>status_code = 200, body = PyDict [(''status'', PyStr ''active'')]\<rparr>
                   else \<lparr>status_code = 401,
                         body = PyDict [(''error'', PyStr ''No active subscription'')]\<rparr>,
                   [eth_address]))))"
  by (simp add: verify_subscription_def verify_subscription_try_def jsonify_def with_status_def
      Let_def split: option.splits sum.splits)

text \<open>
  Claim C1. For a request that reaches the entitlement check (the body is an object whose
  eth\_address \<open>a\<close> is truthy): when the check returns true the response is 200 with
  body \<open>{"status": "active"}\<close>; when it returns false the response is 401 with body
  \<open>{"error": "No active subscription"}\<close>, not the 500 response; and when the call raises
  (or the contract object cannot be built) the response is 500 with the exception's
  description as the error.
\<close>

theorem verify_subscription_entitlement:
  assumes "get_json request = Inr (PyDict kvs)"
    and "map_of kvs ''eth_address'' = Some a" and "truthy a"
  shows "(eth_contract w3 = None \<and> hasActiveSubscription w3 a = Inr True \<longrightarrow>
            fst (verify_subscription w3 request) =
              \<lparr>status_code = 200, body = PyDict [(''status'', PyStr ''active'')]\<rparr>) \<and>
         (eth_contract w3 = None \<and> hasActiveSubscription w3 a = Inr False \<longrightarrow>
            fst (verify_subscription w3 request) =
              \<lparr>status_code = 401,
               body = PyDict [(''error'', PyStr ''No active subscription'')]\<rparr> \<and>
            status_code (fst (verify_subscription w3 request)) \<noteq> 500) \<and>
         (\<forall>e. eth_contract w3 = None \<and> hasActiveSubscription w3 a = Inl e \<or>
               eth_contract w3 = Some e \<longrightarrow>
            fst (verify_subscription w3 request) =
              \<lparr>status_code = 500, body = PyDict [(''error'', PyStr (str e))]\<rparr>)"
  using assms by (auto simp: verify_subscription_dict)

theorem verify_subscription_entitlement_witness:
  "get_json (demo_request (PyStr ''0xAbC1'')) =
     Inr (PyDict [(''eth_address'', PyStr ''0xAbC1'')]) \<and>
   map_of [(''eth_address'', PyStr ''0xAbC1'')] ''eth_address'' = Some (PyStr ''0xAbC1'') \<and>
   truthy (PyStr ''0xAbC1'') \<and> eth_contract demo_chain = None \<and>
   hasActiveSubscription demo_chain (PyStr ''0xAbC1'') = Inr True \<and>
   fst (verify_subscription demo_chain (demo_request (PyStr ''0xAbC1''))) =
     \<lparr>status_code = 200, body = PyDict [(''status'', PyStr ''active'')]\<rparr>"
proof -
  have rq: "get_json (demo_request (PyStr ''0xAbC1'')) =
      Inr (PyDict [(''eth_address'', PyStr ''0xAbC1'')])"
    by (simp add: demo_request_def)
  have key: "map_of [(''eth_address'', PyStr ''0xAbC1'')] ''eth_address'' =
      Some (PyStr ''0xAbC1'')"
    by simp
  have tr: "truthy (PyStr ''0xAbC1'')"
    by simp
  have ct: "eth_contract demo_chain = None"
    by (simp add: demo_chain_def)
  have sub: "hasActiveSubscription demo_chain (PyStr ''0xAbC1'') = Inr True"
    by (simp add: demo_chain_def demo_call_def)
  from verify_subscription_entitlement [OF rq key tr, of demo_chain] ct sub
  have "fst (verify_subscription demo_chain (demo_request (PyStr ''0xAbC1''))) =
     \<lparr>status_code = 200, body = PyDict [(''status'', PyStr ''active'')]\<rparr>"
    by blast
  with rq key tr ct sub show ?thesis
    by (intro conjI)
qed

text \<open>
  Claim C10. When the body is an object whose eth\_address is present but falsy (the empty
  string, null, false, 0, or any other value Python takes for false), the response is 400
  with body \<open>{"error": "eth_address is required"}\<close>, and the entitlement check is not
  called.
\<close>

theorem verify_subscription_falsy:
  assumes "get_json request = Inr (PyDict kvs)"
    and "map_of kvs ''eth_address'' = Some v"
    and "v = PyStr [] \<or> v = PyNone \<or> v = PyBool False \<or> v = PyInt 0 \<or> \<not> truthy v"
  shows "verify_subscription w3 request =
           (\<lparr>status_code = 400, body = PyDict [(''error'', PyStr ''eth_address is required'')]\<rparr>,
            [])"
proof -
  from assms(3) have "\<not> truthy v"
    by auto
  with assms(1,2) show ?thesis
    by (simp add: verify_subscription_dict)
qed

theorem verify_subscription_falsy_witness:
  "get_json (demo_request (PyInt 0)) = Inr (PyDict [(''eth_address'', PyInt 0)]) \<and>
   map_of [(''eth_address'', PyInt 0)] ''eth_address'' = Some (PyInt 0) \<and>
   verify_subscription demo_chain (demo_request (PyInt 0)) =
     (\<lparr>status_code = 400, body = PyDict [(''error'', PyStr ''eth_address is required'')]\<rparr>, [])"
proof -
  have rq: "get_json (demo_request (PyInt 0)) = Inr (PyDict [(''eth_address'', PyInt 0)])"
    by (simp add: demo_request_def)
  have key: "map_of [(''eth_address'', PyInt 0)] ''eth_address'' = Some (PyInt 0)"
    by simp
  have falsy: "PyInt 0 = PyStr [] \<or> PyInt 0 = PyNone \<or> PyInt 0 = PyBool False \<or>
      PyInt 0 = PyInt 0 \<or> \<not> truthy (PyInt 0)"
    by simp
  from rq key verify_subscription_falsy [OF rq key falsy, of demo_chain] show ?thesis
    by (intro conjI)
qed

text \<open>
  Claim C5, as amended. For every request, the entitlement check is called at most once.
  It is called exactly when the body is an object with a truthy eth\_address \<open>a\<close> and the
  contract object is built, and then its sole argument is \<open>a\<close> itself, the submitted
  value unchanged: the handler does not fold or otherwise normalize it. For every other
  request (no body, a body that is not an object, an absent or falsy eth\_address, a
  contract that cannot be built) the check is not called.
\<close>

theorem verify_subscription_passes_raw:
  "snd (verify_subscription w3 request) =
     (case get_json request of
        Inl e \<Rightarrow> []
      | Inr data \<Rightarrow>
          (case data of
             PyDict kvs \<Rightarrow>
               (case map_of kvs ''eth_address'' of
                  None \<Rightarrow> []
                | Some a \<Rightarrow> if truthy a \<and> eth_contract w3 = None then [a] else [])
           | _ \<Rightarrow> []))"
proof (cases "get_json request")
  case (Inl e)
  then show ?thesis
    by (simp add: verify_subscription_def verify_subscription_try_def)
next
  case (Inr data)
  show ?thesis
  proof (cases data)
    case (PyDict kvs)
    with Inr have "get_json request = Inr (PyDict kvs)"
      by simp
    from verify_subscription_dict [OF this, of w3] Inr PyDict show ?thesis
      by (simp split: option.splits sum.splits)
  qed (simp_all add: Inr verify_subscription_def verify_subscription_try_def)
qed

theorem verify_subscription_passes_raw_witness:
  "snd (verify_subscription demo_chain (demo_request (PyStr ''0xAbC1''))) = [PyStr ''0xAbC1''] \<and>
   snd (verify_subscription demo_chain \<lparr>get_json = Inr (PyList [PyStr ''0xAbC1''])\<rparr>) = []"
proof -
  from verify_subscription_passes_raw [of demo_chain "demo_request (PyStr ''0xAbC1'')"]
  have "snd (verify_subscription demo_chain (demo_request (PyStr ''0xAbC1''))) =
      [PyStr ''0xAbC1'']"
    by (simp add: demo_chain_def demo_request_def)
  moreover
  from verify_subscription_passes_raw
    [of demo_chain "\<lparr>get_json = Inr (PyList [PyStr ''0xAbC1''])\<rparr>"]
  have "snd (verify_subscription demo_chain \<lparr>get_json = Inr (PyList [PyStr ''0xAbC1''])\<rparr>) = []"
    by simp
  ultimately show ?thesis
    by (rule conjI)
qed

text \<open>
  Claim C5, as stated, fails: for the address 0xAbC1 the entitlement check receives
  0xAbC1, not its case-folded form 0xabc1.
\<close>

theorem verify_subscription_normalized_counterexample:
  "snd (verify_subscription demo_chain (demo_request (PyStr ''0xAbC1''))) = [PyStr ''0xAbC1''] \<and>
   Normalize ''0xAbC1'' = ''0xabc1'' \<and>
   snd (verify_subscription demo_chain (demo_request (PyStr ''0xAbC1''))) \<noteq>
     [PyStr (Normalize ''0xAbC1'')]"
proof -
  have calls: "snd (verify_subscription demo_chain (demo_request (PyStr ''0xAbC1''))) =
      [PyStr ''0xAbC1'']"
    by (simp add: verify_subscription_def verify_subscription_try_def demo_chain_def
        demo_call_def demo_request_def)
  have norm: "Normalize ''0xAbC1'' = ''0xabc1''"
    by (simp add: Normalize_def sqlite3Tolower_def is_upper_def char_of_eq_iff)
  show ?thesis
    unfolding calls norm by simp
qed

text \<open>
  When the body is an object without the key eth\_address, the response is the 400
  response: the part of claim C4 the code keeps.
\<close>

lemma verify_subscription_absent:
  "get_json request = Inr (PyDict kvs) \<Longrightarrow> map_of kvs ''eth_address'' = None \<Longrightarrow>
   verify_subscription w3 request =
     (\<lparr>status_code = 400, body = PyDict [(''error'', PyStr ''eth_address is required'')]\<rparr>, [])"
  by (simp add: verify_subscription_dict)

text \<open>
  Claim C4 does not hold of the code for a request without a JSON body. When
  \<^verbatim>\<open>get_json()\<close> returns None, \<^verbatim>\<open>data.get\<close> raises an AttributeError inside the
  \<^verbatim>\<open>try\<close> block, and when \<^verbatim>\<open>get_json()\<close> itself raises, that exception is caught
  there too: either way the response is 500 with the exception's text, not the 400
  response.
\<close>

theorem verify_subscription_no_body:
  "verify_subscription w3 \<lparr>get_json = Inr PyNone\<rparr> =
     (\<lparr>status_code = 500,
       body = PyDict [(''error'', PyStr (str (attribute_error PyNone ''get'')))]\<rparr>, []) \<and>
   verify_subscription w3 \<lparr>get_json = Inl e\<rparr> =
     (\<lparr>status_code = 500, body = PyDict [(''error'', PyStr (str e))]\<rparr>, [])"
  by (simp add: verify_subscription_def verify_subscription_try_def jsonify_def with_status_def)

end
